theory Spec2Isabelle
  imports Complex_Main "HOL-Library.List_Lexorder" "HOL-Library.Sublist" "HOL-Library.Multiset"
begin

section \<open>Python values and the built-ins the script calls\<close>

text \<open>
  A Python \<open>str\<close> is a sequence of Unicode code points; it is modelled as a list of
  code points, so that \<open>len\<close>, slicing, \<open>strip\<close>, \<open>isdigit\<close> and the comparison of two
  strings count and compare what Python counts and compares. ASCII literals are written
  \<open>ustr ''abc''\<close>.
\<close>

type_synonym pystr = "nat list"

abbreviation ustr :: "string \<Rightarrow> pystr" where
  "ustr s \<equiv> map of_char s"

text \<open>
  Code points for which \<open>str.isspace()\<close> holds; \<open>str.strip()\<close> without argument removes
  exactly these from both ends.
\<close>

definition py_isspace :: "nat \<Rightarrow> bool" where
  "py_isspace c \<longleftrightarrow>
     (9 \<le> c \<and> c \<le> 13) \<or> (28 \<le> c \<and> c \<le> 32) \<or> c = 133 \<or> c = 160 \<or> c = 5760 \<or>
     (8192 \<le> c \<and> c \<le> 8202) \<or> c = 8232 \<or> c = 8233 \<or> c = 8239 \<or> c = 8287 \<or> c = 12288"

definition py_strip :: "pystr \<Rightarrow> pystr" where
  "py_strip s = rev (dropWhile py_isspace (rev (dropWhile py_isspace s)))"

definition in_ranges :: "nat \<Rightarrow> (nat \<times> nat) list \<Rightarrow> bool" where
  "in_ranges c rs = list_ex (\<lambda>(a, b). a \<le> c \<and> c \<le> b) rs"

text \<open>
  The Unicode decimal digits (general category Nd, Unicode 14, as in CPython 3.11): every
  range is a run of the digits zero to nine, so the value of a code point is its offset in
  the run modulo ten.
\<close>

definition decimal_ranges :: "(nat \<times> nat) list" where
  "decimal_ranges =
   [(48, 57), (1632, 1641), (1776, 1785), (1984, 1993), (2406, 2415), (2534, 2543),
    (2662, 2671), (2790, 2799), (2918, 2927), (3046, 3055), (3174, 3183), (3302, 3311),
    (3430, 3439), (3558, 3567), (3664, 3673), (3792, 3801), (3872, 3881), (4160, 4169),
    (4240, 4249), (6112, 6121), (6160, 6169), (6470, 6479), (6608, 6617), (6784, 6793),
    (6800, 6809), (6992, 7001), (7088, 7097), (7232, 7241), (7248, 7257), (42528, 42537),
    (43216, 43225), (43264, 43273), (43472, 43481), (43504, 43513), (43600, 43609),
    (44016, 44025), (65296, 65305), (66720, 66729), (68912, 68921), (69734, 69743),
    (69872, 69881), (69942, 69951), (70096, 70105), (70384, 70393), (70736, 70745),
    (70864, 70873), (71248, 71257), (71360, 71369), (71472, 71481), (71904, 71913),
    (72016, 72025), (72784, 72793), (73040, 73049), (73120, 73129), (92768, 92777),
    (92864, 92873), (93008, 93017), (120782, 120831), (123200, 123209), (123632, 123641),
    (125264, 125273), (130032, 130041)]"

text \<open>
  The code points for which \<open>str.isdigit()\<close> holds: the decimal digits and the characters
  of numeric type Digit (superscripts, subscripts, circled digits, ...), which have no
  decimal value.
\<close>

definition digit_ranges :: "(nat \<times> nat) list" where
  "digit_ranges =
   [(48, 57), (178, 179), (185, 185), (1632, 1641), (1776, 1785), (1984, 1993),
    (2406, 2415), (2534, 2543), (2662, 2671), (2790, 2799), (2918, 2927), (3046, 3055),
    (3174, 3183), (3302, 3311), (3430, 3439), (3558, 3567), (3664, 3673), (3792, 3801),
    (3872, 3881), (4160, 4169), (4240, 4249), (4969, 4977), (6112, 6121), (6160, 6169),
    (6470, 6479), (6608, 6618), (6784, 6793), (6800, 6809), (6992, 7001), (7088, 7097),
    (7232, 7241), (7248, 7257), (8304, 8304), (8308, 8313), (8320, 8329), (9312, 9320),
    (9332, 9340), (9352, 9360), (9450, 9450), (9461, 9469), (9471, 9471), (10102, 10110),
    (10112, 10120), (10122, 10130), (42528, 42537), (43216, 43225), (43264, 43273),
    (43472, 43481), (43504, 43513), (43600, 43609), (44016, 44025), (65296, 65305),
    (66720, 66729), (68160, 68163), (68912, 68921), (69216, 69224), (69714, 69722),
    (69734, 69743), (69872, 69881), (69942, 69951), (70096, 70105), (70384, 70393),
    (70736, 70745), (70864, 70873), (71248, 71257), (71360, 71369), (71472, 71481),
    (71904, 71913), (72016, 72025), (72784, 72793), (73040, 73049), (73120, 73129),
    (92768, 92777), (92864, 92873), (93008, 93017), (120782, 120831), (123200, 123209),
    (123632, 123641), (125264, 125273), (127232, 127242), (130032, 130041)]"

definition py_isdigit :: "nat \<Rightarrow> bool" where
  "py_isdigit c = in_ranges c digit_ranges"

definition py_decimal :: "nat \<Rightarrow> nat option" where
  "py_decimal c =
     (case find (\<lambda>(a, b). a \<le> c \<and> c \<le> b) decimal_ranges of
        None \<Rightarrow> None
      | Some (a, b) \<Rightarrow> Some ((c - a) mod 10))"

text \<open>\<open>s.isdigit()\<close>: the string is not empty and all its characters are digits.\<close>

definition str_isdigit :: "pystr \<Rightarrow> bool" where
  "str_isdigit s \<longleftrightarrow> s \<noteq> [] \<and> list_all py_isdigit s"

text \<open>
  \<open>int(s)\<close> on a string, base ten: surrounding whitespace is dropped, one sign is allowed,
  then come decimal digits of any script, single underscores allowed between two digits.
  \<open>None\<close> stands for \<open>ValueError\<close>. The interpreter refuses more than
  \<open>max_str_digits\<close> digits (\<open>sys.get_int_max_str_digits()\<close>, 4300 unless reconfigured).
  The whitespace \<open>int\<close> drops is that of \<open>strip\<close> without the separators U+001C to U+001F.
\<close>

definition max_str_digits :: nat where
  "max_str_digits = 4300"

fun scan_digits :: "pystr \<Rightarrow> bool \<Rightarrow> nat \<Rightarrow> nat \<Rightarrow> (nat \<times> nat) option" where
  "scan_digits [] prev acc n = (if prev then Some (acc, n) else None)"
| "scan_digits (c # cs) prev acc n =
     (if c = 95 then (if prev then scan_digits cs False acc n else None)
      else case py_decimal c of
             None \<Rightarrow> None
           | Some d \<Rightarrow> scan_digits cs True (10 * acc + d) (Suc n))"

definition int_unsigned :: "pystr \<Rightarrow> nat option" where
  "int_unsigned ds =
     (case scan_digits ds False 0 0 of
        None \<Rightarrow> None
      | Some (v, n) \<Rightarrow> if n \<le> max_str_digits then Some v else None)"

definition int_isspace :: "nat \<Rightarrow> bool" where
  "int_isspace c \<longleftrightarrow> py_isspace c \<and> (c < 28 \<or> 31 < c)"

definition py_int :: "pystr \<Rightarrow> int option" where
  "py_int s =
     (case rev (dropWhile int_isspace (rev (dropWhile int_isspace s))) of
        [] \<Rightarrow> None
      | c # cs \<Rightarrow>
          if c = 45 then map_option (\<lambda>v. - int v) (int_unsigned cs)
          else if c = 43 then map_option int (int_unsigned cs)
          else map_option int (int_unsigned (c # cs)))"

text \<open>
  A Python float is a double. A finite one is modelled by the rational number it denotes;
  the others are the two infinities and NaN. \<open>r.json()\<close> delivers an infinity for a JSON
  number out of range, such as \<open>1e999\<close>, and all three for the literals \<open>Infinity\<close>,
  \<open>-Infinity\<close> and \<open>NaN\<close>, which the parser accepts.
\<close>

datatype pyfloat = Finite rat | PosInf | NegInf | NaN

text \<open>
  Rounding to the nearest double, ties to even, of a number that is 0 or lies between 1 and
  \<open>2 ^ 1024\<close>: \<open>2 ^ ilog2 \<lfloor>x\<rfloor>\<close> is the power of two at or below \<open>x\<close>, and a double has 53
  significant bits.
\<close>

fun ilog2 :: "nat \<Rightarrow> nat" where
  "ilog2 n = (if n < 2 then 0 else Suc (ilog2 (n div 2)))"

declare ilog2.simps [simp del]

definition round_half_even :: "rat \<Rightarrow> int" where
  "round_half_even q =
     (let n = \<lfloor>q\<rfloor>; r = q - of_int n
      in if r < 1 / 2 \<or> (r = 1 / 2 \<and> even n) then n else n + 1)"

definition to_double :: "rat \<Rightarrow> rat" where
  "to_double x =
     (let u = 2 ^ ilog2 (nat \<lfloor>x\<rfloor>) / 2 ^ 52
      in of_int (round_half_even (x / u)) * u)"

text \<open>The product of two doubles, and the double that the literal \<open>1.8\<close> denotes.\<close>

definition double_mult :: "rat \<Rightarrow> rat \<Rightarrow> rat" where
  "double_mult a b = to_double (a * b)"

definition double_1_8 :: rat where
  "double_1_8 = 8106479329266893 / 4503599627370496"

text \<open>
  The float nearest to a natural number: the numbers from \<open>2 ^ 1024 - 2 ^ 970\<close> on round to
  infinity.
\<close>

definition float_of_nat :: "nat \<Rightarrow> pyfloat" where
  "float_of_nat v =
     (if (2 :: rat) ^ 1024 - 2 ^ 970 \<le> of_nat v then PosInf else Finite (to_double (of_nat v)))"

definition py_trunc :: "rat \<Rightarrow> int" where
  "py_trunc r = (if r < 0 then \<lceil>r\<rceil> else \<lfloor>r\<rfloor>)"

text \<open>
  The value of a table cell as \<open>r.json()\<close> delivers it: \<open>None\<close> (JSON null, or a cell the
  row does not have), a bool, an int, a float or a string.
\<close>

datatype pyval = PNone | PBool bool | PInt int | PFloat pyfloat | PStr pystr

section \<open>Fatal errors\<close>

text \<open>
  \<open>die\<close> (lines 40 to 42) logs the message and raises \<open>SystemExit(code)\<close>; it never
  returns. The other constructors are the exceptions that the built-ins raise and that
  nothing below \<open>main\<close> catches; the handler at the bottom of the script turns them into
  exit code 1.
\<close>

datatype error =
  SystemExit int pystr | ValueError | OverflowError | OSError | JSONDecodeError | RequestException

definition die :: "pystr \<Rightarrow> int \<Rightarrow> error + unit" where
  "die msg code = Inl (SystemExit code msg)"

section \<open>Quantity coercion\<close>

text \<open>
  \<open>int(x)\<close> on a float truncates towards zero; on an infinity it raises \<open>OverflowError\<close>,
  on NaN \<open>ValueError\<close>.
\<close>

definition int_of_float :: "pyfloat \<Rightarrow> error + int" where
  "int_of_float f =
     (case f of
        Finite r \<Rightarrow> Inr (py_trunc r)
      | PosInf \<Rightarrow> Inl OverflowError
      | NegInf \<Rightarrow> Inl OverflowError
      | NaN \<Rightarrow> Inl ValueError)"

text \<open>
  \<open>to_int\<close> (lines 61 to 75). \<open>isinstance(x, (int, float))\<close> holds for a bool as well, and
  \<open>int(True)\<close> is 1. The \<open>try\<close> around \<open>int(cleaned)\<close> turns \<open>ValueError\<close> into 0; the
  \<open>int(x)\<close> of line 65 stands outside it, so what it raises leaves \<open>to_int\<close>.
\<close>

definition to_int :: "pyval \<Rightarrow> error + int" where
  "to_int x =
     (case x of
        PNone \<Rightarrow> Inr 0
      | PBool b \<Rightarrow> Inr (if b then 1 else 0)
      | PInt n \<Rightarrow> Inr n
      | PFloat f \<Rightarrow> int_of_float f
      | PStr t \<Rightarrow>
          (let s = py_strip t in
           if s = [] then Inr 0
           else
             let s' = filter (\<lambda>c. c \<noteq> 160) (filter (\<lambda>c. c \<noteq> 32) s);
                 cleaned = filter (\<lambda>ch. py_isdigit ch \<or> ch = 45) s'
             in if cleaned \<noteq> [] then (case py_int cleaned of None \<Rightarrow> Inr 0 | Some v \<Rightarrow> Inr v)
                else Inr 0))"

section \<open>Environment\<close>

text \<open>The process environment: \<open>os.getenv(n, d)\<close> is \<open>d\<close> for a variable that is not set.\<close>

type_synonym environ = "pystr \<Rightarrow> pystr option"

definition getenv :: "environ \<Rightarrow> pystr \<Rightarrow> pystr \<Rightarrow> pystr" where
  "getenv env n d = (case env n of None \<Rightarrow> d | Some v \<Rightarrow> v)"

text \<open>\<open>sep.join(xs)\<close>.\<close>

fun py_join :: "pystr \<Rightarrow> pystr list \<Rightarrow> pystr" where
  "py_join sep [] = []"
| "py_join sep [x] = x"
| "py_join sep (x # y # ys) = x @ sep @ py_join sep (y # ys)"

text \<open>The \<open>for\<close> loop of \<open>require_env\<close> (lines 47 to 52), with \<open>out\<close> and \<open>missing\<close> passed along.\<close>

fun require_env_loop ::
  "environ \<Rightarrow> pystr list \<Rightarrow> (pystr \<rightharpoonup> pystr) \<Rightarrow> pystr list \<Rightarrow> (pystr \<rightharpoonup> pystr) \<times> pystr list" where
  "require_env_loop env [] out missing = (out, missing)"
| "require_env_loop env (n # ns) out missing =
     (let v = py_strip (getenv env n []) in
      if v = [] then require_env_loop env ns out (missing @ [n])
      else require_env_loop env ns (out(n \<mapsto> v)) missing)"

definition missing_message :: "pystr list \<Rightarrow> pystr" where
  "missing_message missing =
     ustr ''Missing required env vars: '' @ py_join (ustr '', '') missing
     @ [10, 10145, 65039] @ ustr '' Check GitHub Secrets / workflow env mapping.''"

definition require_env :: "environ \<Rightarrow> pystr list \<Rightarrow> error + (pystr \<rightharpoonup> pystr)" where
  "require_env env names =
     (case require_env_loop env names Map.empty [] of
        (out, missing) \<Rightarrow>
          if missing \<noteq> [] then
            (case die (missing_message missing) 2 of Inl e \<Rightarrow> Inl e | Inr _ \<Rightarrow> Inr out)
          else Inr out)"

text \<open>The seven names \<open>main\<close> passes (lines 154 to 157).\<close>

definition mandatory_names :: "pystr list" where
  "mandatory_names =
     [ustr ''TENANT_ID'', ustr ''CLIENT_ID'', ustr ''CLIENT_SECRET'', ustr ''SP_SITE_HOSTNAME'',
      ustr ''SP_SITE_PATH'', ustr ''SP_XLSX_PATH'', ustr ''SP_TABLE_NAME'']"

section \<open>Rows and column lookup\<close>

text \<open>
  A Python \<open>dict\<close> keeps its keys in insertion order, and storing under a key that is
  already there replaces the value where the key stands. A raw row is such a dict from
  column names to cell values.
\<close>

fun dict_set :: "('k \<times> 'v) list \<Rightarrow> 'k \<Rightarrow> 'v \<Rightarrow> ('k \<times> 'v) list" where
  "dict_set [] k v = [(k, v)]"
| "dict_set ((k', v') # d) k v =
     (if k' = k then (k', v) # d else (k', v') # dict_set d k v)"

type_synonym row = "(pystr \<times> pyval) list"

text \<open>
  Two built-ins are taken as parameters, since they are tables of the interpreter and not
  code of the script: \<open>str.lower\<close> (the Unicode case mapping) and the \<open>str\<close> of a float
  (its shortest repr).
\<close>

record builtins =
  lower :: "pystr \<Rightarrow> pystr"
  float_repr :: "pyfloat \<Rightarrow> pystr"

text \<open>\<open>str.lower\<close> on ASCII text, an instance for concrete runs.\<close>

definition ascii_lower :: "pystr \<Rightarrow> pystr" where
  "ascii_lower s = map (\<lambda>c. if 65 \<le> c \<and> c \<le> 90 then c + 32 else c) s"

definition ascii_builtins :: builtins where
  "ascii_builtins = \<lparr>lower = ascii_lower, float_repr = (\<lambda>r. ustr ''0.0'')\<rparr>"

text \<open>
  \<open>pick_col\<close> (lines 142 to 149): \<open>norm\<close> maps each normalised key to the key itself, a
  later key of the row winning over an earlier one with the same normal form; the first
  candidate whose normal form is in \<open>norm\<close> decides, whatever the cell holds.
\<close>

definition norm_keys :: "builtins \<Rightarrow> row \<Rightarrow> (pystr \<rightharpoonup> pystr)" where
  "norm_keys B row = fold (\<lambda>k m. m(lower B (py_strip k) \<mapsto> k)) (map fst row) Map.empty"

fun pick_loop :: "builtins \<Rightarrow> (pystr \<rightharpoonup> pystr) \<Rightarrow> row \<Rightarrow> pystr list \<Rightarrow> pyval" where
  "pick_loop B nrm row [] = PNone"
| "pick_loop B nrm row (c # cs) =
     (case nrm (lower B (py_strip c)) of
        Some k \<Rightarrow> (case map_of row k of None \<Rightarrow> PNone | Some v \<Rightarrow> v)
      | None \<Rightarrow> pick_loop B nrm row cs)"

definition pick_col :: "builtins \<Rightarrow> row \<Rightarrow> pystr list \<Rightarrow> pyval" where
  "pick_col B row candidates = pick_loop B (norm_keys B row) row candidates"

text \<open>\<open>str(x)\<close> of a cell value.\<close>

fun digits_of :: "nat \<Rightarrow> pystr" where
  "digits_of n = (if n < 10 then [48 + n] else digits_of (n div 10) @ [48 + n mod 10])"

declare digits_of.simps [simp del]

definition str_int :: "int \<Rightarrow> pystr" where
  "str_int i = (if i < 0 then 45 # digits_of (nat (- i)) else digits_of (nat i))"

definition py_str :: "builtins \<Rightarrow> pyval \<Rightarrow> pystr" where
  "py_str B x =
     (case x of
        PNone \<Rightarrow> ustr ''None''
      | PBool b \<Rightarrow> (if b then ustr ''True'' else ustr ''False'')
      | PInt n \<Rightarrow> str_int n
      | PFloat f \<Rightarrow> float_repr B f
      | PStr s \<Rightarrow> s)"

text \<open>\<open>safe_str\<close> (lines 77 to 78).\<close>

definition safe_str :: "builtins \<Rightarrow> pyval \<Rightarrow> pystr" where
  "safe_str B x = (case x of PNone \<Rightarrow> [] | _ \<Rightarrow> py_strip (py_str B x))"

section \<open>Normalising the rows\<close>

record item =
  SKU :: pystr
  Model :: pystr
  Qty :: int

text \<open>
  The candidate lists (lines 215 to 220): the override alone when it is set, the fixed
  aliases otherwise.
\<close>

definition sku_candidates :: "pystr \<Rightarrow> pystr list" where
  "sku_candidates col_sku_override =
     (if col_sku_override \<noteq> [] then [col_sku_override]
      else [ustr ''SKU'', [1040, 1088, 1090, 1080, 1082, 1091, 1083], ustr ''Sku''])"

definition model_candidates :: "pystr \<Rightarrow> pystr list" where
  "model_candidates col_model_override =
     (if col_model_override \<noteq> [] then [col_model_override]
      else [ustr ''Model'', [1052, 1086, 1076, 1077, 1083, 1100],
            [1053, 1072, 1080, 1084, 1077, 1085, 1086, 1074, 1072, 1085, 1080, 1077],
            [1053, 1072, 1079, 1074, 1072, 1085, 1080, 1077]])"

definition qty_candidates :: "pystr \<Rightarrow> pystr list" where
  "qty_candidates col_qty_override =
     (if col_qty_override \<noteq> [] then [col_qty_override]
      else [[1041, 1088, 1086, 1085, 1100, 32, 1076, 1083, 1103, 32,
             1089, 1077, 1088, 1074, 1080, 1089, 1072],
            [1041, 1088, 1086, 1085, 1100, 95, 1076, 1083, 1103, 95,
             1089, 1077, 1088, 1074, 1080, 1089, 1072],
            ustr ''Service reserve'', ustr ''Service Reserve'', ustr ''Qty, pcs'', ustr ''Qty'',
            [1050, 1086, 1083, 1080, 1095, 1077, 1089, 1090, 1074, 1086],
            [1050, 1086, 1083, 45, 1074, 1086]])"

text \<open>
  The loop over \<open>rows_out\<close> (lines 222 to 229); \<open>items\<close> is the list built so far, and
  \<open>continue\<close> goes on with it unchanged. An exception of \<open>to_int\<close> ends the loop.
\<close>

fun normalize_rows ::
  "builtins \<Rightarrow> pystr list \<Rightarrow> pystr list \<Rightarrow> pystr list \<Rightarrow> row list \<Rightarrow> item list
     \<Rightarrow> error + item list" where
  "normalize_rows B sc mc qc [] items = Inr items"
| "normalize_rows B sc mc qc (row # rows) items =
     (let sku = safe_str B (pick_col B row sc) in
      if sku = [] then normalize_rows B sc mc qc rows items
      else
        let model = safe_str B (pick_col B row mc) in
        (case to_int (pick_col B row qc) of
           Inl e \<Rightarrow> Inl e
         | Inr qty \<Rightarrow>
             normalize_rows B sc mc qc rows
               (items @ [\<lparr>SKU = sku, Model = model, Qty = qty\<rparr>])))"

text \<open>
  \<open>items.sort(key=lambda x: x["SKU"])\<close> (line 232): \<open>list.sort\<close> is a stable sort, and two
  strings compare lexicographically by code point, which is the order of
  \<open>HOL-Library.List_Lexorder\<close> on lists of code points.
\<close>

definition sort_items :: "item list \<Rightarrow> item list" where
  "sort_items items = sort_key SKU items"

section \<open>The Graph client\<close>

text \<open>
  What the script reads of a parsed response body: the list under \<open>value\<close> and the string
  under \<open>@odata.nextLink\<close>, each absent or present; a row resource carries the matrix
  under \<open>values\<close>. The empty JSON object \<open>{}\<close> has neither key.
\<close>

record table_row =
  row_values :: "pyval list list option"

record graph_json =
  odata_value :: "table_row list option"
  odata_nextLink :: "pystr option"

definition empty_json :: graph_json where
  "empty_json = \<lparr>odata_value = None, odata_nextLink = None\<rparr>"

text \<open>
  A response as \<open>graph_get\<close> looks at it: the status, the \<open>Retry-After\<close> header if there is
  one, \<open>r.text\<close>, and \<open>r.json()\<close>, which raises when the body is not JSON. \<open>requests.get\<close>
  itself raises when no response arrives.
\<close>

record response =
  status_code :: int
  retry_after :: "pystr option"
  body_text :: pystr
  body_json :: "graph_json option"

datatype reply = Response response | NoResponse

text \<open>
  The world of a run: the network answers the \<open>k\<close>-th GET of the run, for the URL and the
  bearer token sent, with \<open>net w k url token\<close>; \<open>sleep_refused w t\<close> says that the operating
  system refuses a sleep of \<open>t\<close> seconds; \<open>gets\<close> lists the GETs issued so far, \<open>sleeps\<close> the
  sleeps done, and \<open>out_file\<close> is the records of \<open>public/data/service_stock.json\<close> once the
  run has written it. The script passes no \<open>params\<close> to \<open>graph_get\<close>, so they are left out.
\<close>

record world =
  net :: "nat \<Rightarrow> pystr \<Rightarrow> pystr \<Rightarrow> reply"
  sleep_refused :: "rat \<Rightarrow> bool"
  gets :: "(pystr \<times> pystr) list"
  sleeps :: "rat list"
  out_file :: "item list option"

definition requests_get :: "pystr \<Rightarrow> pystr \<Rightarrow> world \<Rightarrow> reply \<times> world" where
  "requests_get url token w =
     (net w (length (gets w)) url token, w\<lparr>gets := gets w @ [(url, token)]\<rparr>)"

text \<open>
  \<open>time.sleep(wait)\<close>: \<open>ValueError\<close> for a negative length or NaN, \<open>OverflowError\<close> for a
  length that does not fit the 63 bits of a count of nanoseconds, \<open>OSError\<close> for a length
  the operating system refuses. The waits of \<open>graph_get\<close> are whole numbers or at most 30,
  for which the rounding of the product with \<open>10 ^ 9\<close> does not reach the bound.
\<close>

definition time_sleep :: "pyfloat \<Rightarrow> world \<Rightarrow> error + world" where
  "time_sleep wait w =
     (case wait of
        Finite t \<Rightarrow>
          if t < 0 then Inl ValueError
          else if 2 ^ 63 \<le> t * 10 ^ 9 then Inl OverflowError
          else if sleep_refused w t then Inl OSError
          else Inr (w\<lparr>sleeps := sleeps w @ [t]\<rparr>)
      | PosInf \<Rightarrow> Inl OverflowError
      | NegInf \<Rightarrow> Inl OverflowError
      | NaN \<Rightarrow> Inl ValueError)"

definition retriable :: "int \<Rightarrow> bool" where
  "retriable s \<longleftrightarrow> s = 429 \<or> s = 500 \<or> s = 502 \<or> s = 503 \<or> s = 504"

text \<open>
  \<open>float(s)\<close> for a string that passed \<open>isdigit()\<close>: the float nearest to the number the
  digits denote when all of them are decimal digits, \<open>ValueError\<close> otherwise.
\<close>

fun decimal_value :: "pystr \<Rightarrow> nat \<Rightarrow> nat option" where
  "decimal_value [] acc = Some acc"
| "decimal_value (c # cs) acc =
     (case py_decimal c of None \<Rightarrow> None | Some d \<Rightarrow> decimal_value cs (10 * acc + d))"

definition py_float_digits :: "pystr \<Rightarrow> pyfloat option" where
  "py_float_digits s = map_option float_of_nat (decimal_value s 0)"

text \<open>Line 133: the wait of one retried attempt.\<close>

definition wait_for :: "pystr option \<Rightarrow> rat \<Rightarrow> error + pyfloat" where
  "wait_for hdr backoff =
     (case hdr of
        None \<Rightarrow> Inr (Finite backoff)
      | Some h \<Rightarrow>
          if h \<noteq> [] \<and> str_isdigit h then
            (case py_float_digits h of None \<Rightarrow> Inl ValueError | Some f \<Rightarrow> Inr f)
          else Inr (Finite backoff))"

definition get_failed_message :: "pystr \<Rightarrow> response \<Rightarrow> pystr" where
  "get_failed_message url r =
     ustr ''Graph GET failed: '' @ url @ [10] @ ustr ''HTTP '' @ str_int (status_code r)
     @ [32, 8212, 32] @ take 600 (body_text r)"

text \<open>
  The \<open>for\<close> loop of \<open>graph_get\<close> (lines 127 to 140) with the number of attempts left; with
  none left the code after the loop runs. \<open>die\<close> is called as the code calls it, and what
  would follow its return is written out. The backoff is a double, \<open>2.0\<close> at first, and
  \<open>backoff * 1.8\<close> is the product of doubles.
\<close>

fun graph_get_loop ::
  "nat \<Rightarrow> pystr \<Rightarrow> pystr \<Rightarrow> rat \<Rightarrow> world \<Rightarrow> (error + graph_json) \<times> world" where
  "graph_get_loop 0 url token backoff w =
     (case die (ustr ''Graph GET failed after retries: '' @ url) 2 of
        Inl e \<Rightarrow> (Inl e, w)
      | Inr _ \<Rightarrow> (Inr empty_json, w))"
| "graph_get_loop (Suc n) url token backoff w =
     (case requests_get url token w of
        (NoResponse, w1) \<Rightarrow> (Inl RequestException, w1)
      | (Response r, w1) \<Rightarrow>
          if status_code r = 200 then
            (case body_json r of
               None \<Rightarrow> (Inl JSONDecodeError, w1)
             | Some j \<Rightarrow> (Inr j, w1))
          else if retriable (status_code r) then
            (case wait_for (retry_after r) backoff of
               Inl e \<Rightarrow> (Inl e, w1)
             | Inr wait \<Rightarrow>
                 (case time_sleep wait w1 of
                    Inl e \<Rightarrow> (Inl e, w1)
                  | Inr w2 \<Rightarrow>
                      graph_get_loop n url token (min (double_mult backoff double_1_8) 30) w2))
          else
            (case die (get_failed_message url r) 2 of
               Inl e \<Rightarrow> (Inl e, w1)
             | Inr _ \<Rightarrow> graph_get_loop n url token backoff w1))"

definition graph_get :: "pystr \<Rightarrow> pystr \<Rightarrow> int \<Rightarrow> world \<Rightarrow> (error + graph_json) \<times> world" where
  "graph_get url token max_retries w = graph_get_loop (nat max_retries) url token 2 w"

section \<open>Collecting the rows\<close>

text \<open>\<open>(r.get("values") or [[]])[0]\<close>.\<close>

definition first_values :: "pyval list list option \<Rightarrow> pyval list" where
  "first_values x = (case x of None \<Rightarrow> [] | Some [] \<Rightarrow> [] | Some (v # vs) \<Rightarrow> v)"

text \<open>The dict comprehension of line 207.\<close>

definition row_of :: "pystr list \<Rightarrow> pyval list \<Rightarrow> row" where
  "row_of col_names vals =
     fold (\<lambda>i d. dict_set d (col_names ! i) (if i < length vals then vals ! i else PNone))
       [0..<length col_names] []"

definition page_rows :: "pystr list \<Rightarrow> graph_json \<Rightarrow> row list" where
  "page_rows col_names rows_json =
     map (\<lambda>r. row_of col_names (first_values (row_values r)))
       (case odata_value rows_json of None \<Rightarrow> [] | Some rs \<Rightarrow> rs)"

text \<open>\<open>while url:\<close> goes on for a string that is not empty.\<close>

definition truthy :: "pystr option \<Rightarrow> bool" where
  "truthy url = (case url of None \<Rightarrow> False | Some u \<Rightarrow> u \<noteq> [])"

text \<open>
  The \<open>while\<close> loop (lines 203 to 209). It need not end: a server may hand out next links
  for ever, and then the result is \<open>None\<close>.
\<close>

partial_function (option) load_rows ::
  "pystr list \<Rightarrow> pystr \<Rightarrow> pystr option \<Rightarrow> row list \<Rightarrow> world \<Rightarrow> ((error + row list) \<times> world) option"
where
  "load_rows col_names token url rows_out w =
     (if truthy url then
        (case graph_get (the url) token 6 w of
           (Inl e, w1) \<Rightarrow> Some (Inl e, w1)
         | (Inr rows_json, w1) \<Rightarrow>
             load_rows col_names token (odata_nextLink rows_json)
               (rows_out @ page_rows col_names rows_json) w1)
      else Some (Inr rows_out, w))"

section \<open>The run from the rows on\<close>

definition GRAPH :: pystr where
  "GRAPH = ustr ''https://graph.microsoft.com/v1.0''"

text \<open>The URL of line 202; \<open>quoted_table\<close> is \<open>quote(table_name)\<close>.\<close>

definition rows_url :: "pystr \<Rightarrow> pystr \<Rightarrow> pystr \<Rightarrow> pystr" where
  "rows_url site_id item_id quoted_table =
     GRAPH @ ustr ''/sites/'' @ site_id @ ustr ''/drive/items/'' @ item_id
     @ ustr ''/workbook/tables/'' @ quoted_table @ ustr ''/rows?$top=500''"

definition zero_rows_message :: pystr where
  "zero_rows_message = ustr ''Parsed 0 rows from table. Possibly empty table or permission issue.''"

text \<open>Lines 215 to 232: the records of the snapshot, from the collected rows.\<close>

definition snapshot_items ::
  "builtins \<Rightarrow> pystr \<Rightarrow> pystr \<Rightarrow> pystr \<Rightarrow> row list \<Rightarrow> error + item list" where
  "snapshot_items B col_sku_override col_model_override col_qty_override rows_out =
     (case normalize_rows B (sku_candidates col_sku_override)
             (model_candidates col_model_override) (qty_candidates col_qty_override) rows_out [] of
        Inl e \<Rightarrow> Inl e
      | Inr items \<Rightarrow> Inr (sort_items items))"

text \<open>
  \<open>main\<close> from line 199 on, given what the lines before have resolved: the token, the site
  and item identifiers, the column names and the three overrides. Writing the file is the
  last effect.
\<close>

definition main_rows ::
  "builtins \<Rightarrow> pystr \<Rightarrow> pystr \<Rightarrow> pystr \<Rightarrow> pystr \<Rightarrow> pystr list \<Rightarrow> pystr \<Rightarrow> pystr \<Rightarrow> pystr \<Rightarrow> world
     \<Rightarrow> ((error + unit) \<times> world) option" where
  "main_rows B token site_id item_id quoted_table col_names
       col_sku_override col_model_override col_qty_override w =
     (case load_rows col_names token (Some (rows_url site_id item_id quoted_table)) [] w of
        None \<Rightarrow> None
      | Some (Inl e, w1) \<Rightarrow> Some (Inl e, w1)
      | Some (Inr rows_out, w1) \<Rightarrow>
          (case (if rows_out = [] then die zero_rows_message 2 else Inr ()) of
             Inl e \<Rightarrow> Some (Inl e, w1)
           | Inr _ \<Rightarrow>
               (case snapshot_items B col_sku_override col_model_override
                       col_qty_override rows_out of
                  Inl e \<Rightarrow> Some (Inl e, w1)
                | Inr items \<Rightarrow> Some (Inr (), w1\<lparr>out_file := Some items\<rparr>))))"

section \<open>The specification's wording of the quantity coercion\<close>

text \<open>
  The coercion of a textual value as the specification words it: spaces and the
  non-breaking space are removed, then the digit characters are kept, and a minus sign only
  when it leads.
\<close>

definition to_int_spec :: "pystr \<Rightarrow> int" where
  "to_int_spec t =
     (let s = filter (\<lambda>c. c \<noteq> 32 \<and> c \<noteq> 160) t;
          kept = (if take 1 s = [45] then [45] else []) @ filter py_isdigit s
      in case py_int kept of None \<Rightarrow> 0 | Some v \<Rightarrow> v)"

text \<open>
  A signed decimal numeral: an optional leading minus sign, then at least one and at most
  \<open>max_str_digits\<close> decimal digits; its value.
\<close>

definition decimal_number :: "pystr \<Rightarrow> nat option" where
  "decimal_number ds =
     (if ds \<noteq> [] \<and> list_all (\<lambda>d. py_decimal d \<noteq> None) ds \<and> length ds \<le> max_str_digits
      then Some (foldl (\<lambda>a d. 10 * a + the (py_decimal d)) 0 ds)
      else None)"

definition signed_decimal :: "pystr \<Rightarrow> int option" where
  "signed_decimal c =
     (case c of
        [] \<Rightarrow> None
      | d # ds \<Rightarrow>
          if d = 45 then map_option (\<lambda>v. - int v) (decimal_number ds)
          else map_option int (decimal_number (d # ds)))"

section \<open>Definitions for the statements\<close>

text \<open>
  A variable is missing when it is unset, empty or made of whitespace only.
\<close>

definition missing_var :: "environ \<Rightarrow> pystr \<Rightarrow> bool" where
  "missing_var env n = (case env n of None \<Rightarrow> True | Some v \<Rightarrow> list_all py_isspace v)"

text \<open>Two environments: one lacks three of the seven variables, one has them all.\<close>

definition env_incomplete :: environ where
  "env_incomplete =
     map_of [(ustr ''CLIENT_ID'', ustr ''  ''), (ustr ''CLIENT_SECRET'', ustr ''s3''),
             (ustr ''SP_SITE_HOSTNAME'', ustr ''contoso.sharepoint.com''),
             (ustr ''SP_SITE_PATH'', ustr ''/sites/stock''), (ustr ''SP_XLSX_PATH'', ustr ''a.xlsx''),
             (ustr ''SP_TABLE_NAME'', [])]"

definition env_complete :: environ where
  "env_complete =
     map_of [(ustr ''TENANT_ID'', ustr '' t1 ''), (ustr ''CLIENT_ID'', ustr ''c1''),
             (ustr ''CLIENT_SECRET'', ustr ''s3''),
             (ustr ''SP_SITE_HOSTNAME'', ustr ''contoso.sharepoint.com''),
             (ustr ''SP_SITE_PATH'', ustr ''/sites/stock''), (ustr ''SP_XLSX_PATH'', ustr ''a.xlsx''),
             (ustr ''SP_TABLE_NAME'', ustr ''Stock'')]"



definition scenario_rows :: "row list" where
  "scenario_rows =
     [[(ustr ''SKU'', PStr (ustr ''B2'')), (ustr ''Qty'', PStr [])],
      [(ustr ''SKU'', PStr []), (ustr ''Qty'', PStr (ustr ''3''))],
      [(ustr ''SKU'', PStr (ustr ''A1'')), (ustr ''Qty'', PStr (ustr ''5''))]]"

text \<open>
  A world at the start of the rows phase: nothing requested, slept or written yet, on a
  system that refuses no sleep.
\<close>

definition never_refused :: "rat \<Rightarrow> bool" where
  "never_refused t = False"

definition start :: "(nat \<Rightarrow> pystr \<Rightarrow> pystr \<Rightarrow> reply) \<Rightarrow> world" where
  "start n = \<lparr>net = n, sleep_refused = never_refused, gets = [], sleeps = [], out_file = None\<rparr>"

definition ok_reply :: "graph_json \<Rightarrow> reply" where
  "ok_reply j = Response \<lparr>status_code = 200, retry_after = None, body_text = [], body_json = Some j\<rparr>"

definition status_reply :: "int \<Rightarrow> pystr option \<Rightarrow> reply" where
  "status_reply s hdr =
     Response \<lparr>status_code = s, retry_after = hdr, body_text = ustr ''busy'', body_json = None\<rparr>"

text \<open>
  \<open>serves token u w pages w'\<close>: fetching from \<open>u\<close> in world \<open>w\<close>, \<open>graph_get\<close> returns the
  pages in turn, each after the first fetched at the next link of the one before, which is
  a non-empty string; \<open>w'\<close> is the world after the last of them.
\<close>

fun serves :: "pystr \<Rightarrow> pystr \<Rightarrow> world \<Rightarrow> graph_json list \<Rightarrow> world \<Rightarrow> bool" where
  "serves token u w [] w' = False"
| "serves token u w [p] w' = (graph_get u token 6 w = (Inr p, w'))"
| "serves token u w (p # q # ps) w' =
     (case graph_get u token 6 w of
        (Inl e, w1) \<Rightarrow> False
      | (Inr j, w1) \<Rightarrow>
          j = p \<and> truthy (odata_nextLink p) \<and> serves token (the (odata_nextLink p)) w1 (q # ps) w')"

text \<open>
  A table of two pages: the first has no row and links to the second, which has the three
  rows of the scenario and no link. The server is busy once before each page, the second
  time with the hint to wait 7 seconds.
\<close>

definition page_one :: graph_json where
  "page_one = \<lparr>odata_value = Some [], odata_nextLink = Some (ustr ''https://next/2'')\<rparr>"

definition page_two :: graph_json where
  "page_two =
     \<lparr>odata_value = Some
        [\<lparr>row_values = Some [[PStr (ustr ''B2''), PStr []]]\<rparr>,
         \<lparr>row_values = Some [[PStr [], PStr (ustr ''3'')]]\<rparr>,
         \<lparr>row_values = Some [[PStr (ustr ''A1''), PStr (ustr ''5'')]]\<rparr>],
      odata_nextLink = None\<rparr>"

definition net_two_pages :: "nat \<Rightarrow> pystr \<Rightarrow> pystr \<Rightarrow> reply" where
  "net_two_pages k url token =
     (if k = 0 then status_reply 503 None
      else if k = 1 then ok_reply page_one
      else if k = 2 then status_reply 429 (Some (ustr ''7''))
      else if k = 3 then ok_reply page_two
      else NoResponse)"



text \<open>A page whose next link is present and is the empty string.\<close>

definition page_empty_link :: graph_json where
  "page_empty_link =
     \<lparr>odata_value = Some [\<lparr>row_values = Some [[PStr (ustr ''A1''), PStr (ustr ''5'')]]\<rparr>],
      odata_nextLink = Some []\<rparr>"

text \<open>
  A server that answers every GET with 429 and the header \<open>Retry-After: \<twosuperior>\<close>, the byte
  0xB2, which \<open>requests\<close> decodes to the code point 178 (superscript two).
\<close>

definition net_superscript :: "nat \<Rightarrow> pystr \<Rightarrow> pystr \<Rightarrow> reply" where
  "net_superscript k url token = status_reply 429 (Some [178])"



definition net_empty_link :: "nat \<Rightarrow> pystr \<Rightarrow> pystr \<Rightarrow> reply" where
  "net_empty_link k url token = (if k = 0 then ok_reply page_empty_link else ok_reply page_two)"

definition net_always_busy :: "nat \<Rightarrow> pystr \<Rightarrow> pystr \<Rightarrow> reply" where
  "net_always_busy k url token = status_reply 503 None"

text \<open>A server that answers 404.\<close>

definition net_not_found :: "nat \<Rightarrow> pystr \<Rightarrow> pystr \<Rightarrow> reply" where
  "net_not_found k url token = status_reply 404 None"

text \<open>
  A table whose only row has the SKU \<open>A1\<close> and a quantity that JSON writes \<open>1e999\<close>, which
  the parser reads as the float infinity.
\<close>

definition page_inf_qty :: graph_json where
  "page_inf_qty =
     \<lparr>odata_value = Some [\<lparr>row_values = Some [[PStr (ustr ''A1''), PFloat PosInf]]\<rparr>],
      odata_nextLink = None\<rparr>"

definition net_inf_qty :: "nat \<Rightarrow> pystr \<Rightarrow> pystr \<Rightarrow> reply" where
  "net_inf_qty k url token = (if k = 0 then ok_reply page_inf_qty else NoResponse)"

text \<open>
  Servers that are busy with a hint of 10000000000 seconds, and with a hint of 9223372036
  seconds; a system that refuses a sleep from a bound on.
\<close>

definition net_long_hint :: "nat \<Rightarrow> pystr \<Rightarrow> pystr \<Rightarrow> reply" where
  "net_long_hint k url token = status_reply 429 (Some (ustr ''10000000000''))"

definition net_big_hint :: "nat \<Rightarrow> pystr \<Rightarrow> pystr \<Rightarrow> reply" where
  "net_big_hint k url token = status_reply 429 (Some (ustr ''9223372036''))"

definition refused_from :: "rat \<Rightarrow> rat \<Rightarrow> bool" where
  "refused_from bound t \<longleftrightarrow> bound \<le> t"

section \<open>Facts about the built-ins\<close>

lemma py_isdigit_low: "c < 178 \<Longrightarrow> py_isdigit c \<longleftrightarrow> 48 \<le> c \<and> c \<le> 57"
  unfolding py_isdigit_def in_ranges_def digit_ranges_def by simp

lemma py_decimal_low:
  "c < 1632 \<Longrightarrow> py_decimal c = (if 48 \<le> c \<and> c \<le> 57 then Some (c - 48) else None)"
  unfolding py_decimal_def decimal_ranges_def by auto

lemmas to_int_eval = to_int_def py_strip_def py_isspace_def py_isdigit_low py_decimal_low
  py_int_def int_isspace_def int_unsigned_def max_str_digits_def

section \<open>Quantity coercion: the examples\<close>

text \<open>
  C4. \<open>to_int("1 234")\<close> is 1234, \<open>to_int("-12")\<close> is -12, and \<open>to_int\<close> of the empty
  string, of \<open>None\<close> and of \<open>"abc"\<close> is 0; \<open>to_int(7.9)\<close> is 7, where the float \<open>7.9\<close> is the
  double 4447304632028365 / 2^49, and the decimal fraction 79 / 10 gives 7 as well.
\<close>

theorem to_int_examples:
  "to_int (PStr (ustr ''1 234'')) = Inr 1234 \<and> to_int (PStr (ustr ''-12'')) = Inr (- 12) \<and>
   to_int (PStr []) = Inr 0 \<and> to_int PNone = Inr 0 \<and> to_int (PStr (ustr ''abc'')) = Inr 0 \<and>
   to_int (PFloat (Finite (4447304632028365 / 562949953421312))) = Inr 7 \<and>
   to_int (PFloat (Finite (79 / 10))) = Inr 7"
proof -
  have "to_int (PFloat (Finite (79 / 10))) = Inr 7"
    by (simp add: to_int_def int_of_float_def py_trunc_def floor_eq_iff)
  moreover
  have "to_int (PStr (ustr ''1 234'')) = Inr 1234" by (simp add: to_int_eval)
  moreover have "to_int (PStr (ustr ''-12'')) = Inr (- 12)" by (simp add: to_int_eval)
  moreover have "to_int (PStr []) = Inr 0" by (simp add: to_int_eval)
  moreover have "to_int PNone = Inr 0" by (simp add: to_int_def)
  moreover have "to_int (PStr (ustr ''abc'')) = Inr 0" by (simp add: to_int_eval)
  moreover have "to_int (PFloat (Finite (4447304632028365 / 562949953421312))) = Inr 7"
    by (simp add: to_int_def int_of_float_def py_trunc_def floor_eq_iff)
  ultimately show ?thesis by blast
qed

section \<open>Quantity coercion: text\<close>

lemma not_digit_mid: "8192 \<le> c \<Longrightarrow> c \<le> 8303 \<Longrightarrow> \<not> py_isdigit c"
  unfolding py_isdigit_def in_ranges_def digit_ranges_def by simp

lemma not_digit_consts: "\<not> py_isdigit 5760" "\<not> py_isdigit 12288"
  unfolding py_isdigit_def in_ranges_def digit_ranges_def by simp_all

lemma py_isspace_not_kept: "py_isspace c \<Longrightarrow> \<not> (py_isdigit c \<or> c = 45)"
proof -
  assume "py_isspace c"
  then consider "c < 178" "c \<noteq> 45" "\<not> (48 \<le> c \<and> c \<le> 57)"
    | "8192 \<le> c" "c \<le> 8303" | "c = 5760" | "c = 12288"
    unfolding py_isspace_def by linarith
  then show ?thesis
    by cases (simp_all add: py_isdigit_low not_digit_mid not_digit_consts)
qed

lemma filter_dropWhile_disjoint:
  "(\<And>x. Q x \<Longrightarrow> \<not> P x) \<Longrightarrow> filter P (dropWhile Q xs) = filter P xs"
  by (induction xs) auto

lemma filter_py_strip:
  assumes "\<And>x. py_isspace x \<Longrightarrow> \<not> P x"
  shows "filter P (py_strip s) = filter P s"
proof -
  have "filter P (py_strip s) =
        rev (filter P (dropWhile py_isspace (rev (dropWhile py_isspace s))))"
    by (simp add: py_strip_def rev_filter)
  also have "\<dots> = rev (filter P (rev (dropWhile py_isspace s)))"
    using assms by (simp add: filter_dropWhile_disjoint)
  also have "\<dots> = filter P (dropWhile py_isspace s)"
    by (simp add: rev_filter)
  also have "\<dots> = filter P s"
    using assms by (simp add: filter_dropWhile_disjoint)
  finally show ?thesis .
qed

lemma dropWhile_none: "(\<And>x. x \<in> set xs \<Longrightarrow> \<not> Q x) \<Longrightarrow> dropWhile Q xs = xs"
  by (cases xs) auto

lemma scan_digits_plain:
  "95 \<notin> set ds \<Longrightarrow>
   scan_digits ds prev acc n =
     (if list_all (\<lambda>d. py_decimal d \<noteq> None) ds
      then (if ds = [] \<and> \<not> prev then None
            else Some (foldl (\<lambda>a d. 10 * a + the (py_decimal d)) acc ds, n + length ds))
      else None)"
  by (induction ds arbitrary: prev acc n) (auto split: option.splits)

lemma int_unsigned_plain: "95 \<notin> set ds \<Longrightarrow> int_unsigned ds = decimal_number ds"
  by (simp add: int_unsigned_def decimal_number_def scan_digits_plain)

lemma py_int_kept:
  assumes "\<And>x. x \<in> set c \<Longrightarrow> py_isdigit x \<or> x = 45"
  shows "py_int c = signed_decimal c"
proof -
  have n: "\<not> py_isdigit 95" "\<not> py_isdigit 43"
    by (simp_all add: py_isdigit_low)
  have k: "\<not> py_isspace x \<and> x \<noteq> 95 \<and> x \<noteq> 43" if "x \<in> set c" for x
    using assms[OF that] py_isspace_not_kept[of x] n by auto
  have "dropWhile int_isspace c = c"
    using k by (intro dropWhile_none) (simp add: int_isspace_def)
  moreover have "dropWhile int_isspace (rev c) = rev c"
    using k by (intro dropWhile_none) (simp add: int_isspace_def)
  ultimately have s: "rev (dropWhile int_isspace (rev (dropWhile int_isspace c))) = c"
    by simp
  show ?thesis
  proof (cases c)
    case Nil
    then show ?thesis by (simp add: py_int_def signed_decimal_def)
  next
    case (Cons d ds)
    then have "95 \<notin> set ds" "95 \<notin> set (d # ds)" "d \<noteq> 43"
      using k by auto
    then show ?thesis
      using s Cons by (simp add: py_int_def signed_decimal_def int_unsigned_plain)
  qed
qed

lemma to_int_text:
  "to_int (PStr t) =
     Inr (case signed_decimal (filter (\<lambda>ch. py_isdigit ch \<or> ch = 45) t) of
            None \<Rightarrow> 0
          | Some v \<Rightarrow> v)"
proof -
  let ?K = "\<lambda>ch. py_isdigit ch \<or> ch = 45"
  have a: "filter ?K (py_strip t) = filter ?K t"
    by (rule filter_py_strip) (use py_isspace_not_kept in blast)
  have b: "filter ?K (filter (\<lambda>c. c \<noteq> 160) (filter (\<lambda>c. c \<noteq> 32) s)) = filter ?K s" for s
  proof -
    have "?K x \<Longrightarrow> x \<noteq> 160 \<and> x \<noteq> 32" for x
      by (auto simp: py_isdigit_low)
    then show ?thesis by (simp add: filter_filter cong: filter_cong) metis
  qed
  have c: "py_int (filter ?K t) = signed_decimal (filter ?K t)"
    by (rule py_int_kept) simp
  show ?thesis
  proof (cases "py_strip t = []")
    case True
    then have "filter ?K t = []" using a by (metis filter.simps(1))
    then show ?thesis using True by (simp add: to_int_def signed_decimal_def)
  next
    case False
    then show ?thesis
      using a b[of "py_strip t"] c
      by (simp add: to_int_def Let_def signed_decimal_def split: list.splits option.splits)
  qed
qed

text \<open>
  On a float that is not finite, \<open>to_int\<close> raises: \<open>int(x)\<close> of line 65 is not inside the
  \<open>try\<close>.
\<close>

lemma to_int_not_finite:
  "to_int (PFloat PosInf) = Inl OverflowError \<and> to_int (PFloat NegInf) = Inl OverflowError \<and>
   to_int (PFloat NaN) = Inl ValueError"
  by (simp add: to_int_def int_of_float_def)

text \<open>
  C5, as the code has it. \<open>None\<close> gives 0; an int, a bool (which counts as the int 0 or 1)
  and a finite float are truncated towards zero; of a text, every digit character and every
  minus sign is kept, wherever it stands, and everything else is dropped; the result is the
  value of what is kept when that is a signed decimal numeral (an optional leading minus
  sign, then at least one and at most 4300 decimal digits), and 0 otherwise. Stripping
  the text and removing the spaces first changes nothing.
\<close>

theorem to_int_characterisation:
  "to_int PNone = Inr 0 \<and> to_int (PBool b) = Inr (of_bool b) \<and> to_int (PInt n) = Inr n \<and>
   to_int (PFloat (Finite r)) = Inr (if r < 0 then - \<lfloor>- r\<rfloor> else \<lfloor>r\<rfloor>) \<and>
   to_int (PStr t) =
     Inr (case signed_decimal (filter (\<lambda>ch. py_isdigit ch \<or> ch = 45) t) of
            None \<Rightarrow> 0
          | Some v \<Rightarrow> v)"
proof -
  have "to_int (PFloat (Finite r)) = Inr (if r < 0 then - \<lfloor>- r\<rfloor> else \<lfloor>r\<rfloor>)"
    by (simp add: to_int_def int_of_float_def py_trunc_def ceiling_def)
  moreover have "to_int PNone = Inr 0" "to_int (PBool b) = Inr (of_bool b)"
    "to_int (PInt n) = Inr n"
    by (simp_all add: to_int_def)
  ultimately show ?thesis
    using to_int_text[of t] by blast
qed

text \<open>
  C5 as the specification words it keeps a minus sign only when it leads: from \<open>"1-2"\<close>
  it would keep \<open>"12"\<close>, and from \<open>"a-5"\<close> only \<open>"5"\<close>. The code keeps \<open>"1-2"\<close>, which is no
  numeral, and \<open>"-5"\<close>.
\<close>

theorem to_int_minus_counterexample:
  "to_int (PStr (ustr ''1-2'')) = Inr 0 \<and> to_int_spec (ustr ''1-2'') = 12 \<and>
   to_int (PStr (ustr ''a-5'')) = Inr (- 5) \<and> to_int_spec (ustr ''a-5'') = 5"
proof -
  have "to_int (PStr (ustr ''1-2'')) = Inr 0" by (simp add: to_int_eval)
  moreover have "to_int_spec (ustr ''1-2'') = 12"
    by (simp add: to_int_spec_def to_int_eval)
  moreover have "to_int (PStr (ustr ''a-5'')) = Inr (- 5)" by (simp add: to_int_eval)
  moreover have "to_int_spec (ustr ''a-5'') = 5"
    by (simp add: to_int_spec_def to_int_eval)
  ultimately show ?thesis by blast
qed

section \<open>Required environment\<close>

lemma dropWhile_rest_all: "(\<forall>x \<in> set (dropWhile P v). P x) \<longleftrightarrow> dropWhile P v = []"
proof
  assume a: "\<forall>x \<in> set (dropWhile P v). P x"
  show "dropWhile P v = []"
  proof (rule ccontr)
    assume n: "dropWhile P v \<noteq> []"
    then have "\<not> P (hd (dropWhile P v))" by (rule hd_dropWhile)
    moreover have "hd (dropWhile P v) \<in> set (dropWhile P v)" using n by simp
    ultimately show False using a by blast
  qed
qed (auto dest: set_dropWhileD)

lemma py_strip_empty_iff: "py_strip v = [] \<longleftrightarrow> list_all py_isspace v"
proof -
  have "py_strip v = [] \<longleftrightarrow> (\<forall>x \<in> set (dropWhile py_isspace v). py_isspace x)"
    by (simp add: py_strip_def dropWhile_eq_Nil_conv)
  also have "\<dots> \<longleftrightarrow> dropWhile py_isspace v = []" by (rule dropWhile_rest_all)
  also have "\<dots> \<longleftrightarrow> list_all py_isspace v"
    by (simp add: dropWhile_eq_Nil_conv list_all_iff)
  finally show ?thesis .
qed

lemma missing_var_iff: "missing_var env n \<longleftrightarrow> py_strip (getenv env n []) = []"
  by (simp add: missing_var_def getenv_def py_strip_empty_iff split: option.splits)

lemma require_env_loop_eq:
  "require_env_loop env names out missing =
     (fold (\<lambda>n m. if missing_var env n then m else m(n \<mapsto> py_strip (getenv env n []))) names out,
      missing @ filter (missing_var env) names)"
  by (induction names arbitrary: out missing) (simp_all add: Let_def missing_var_iff)

lemma fold_present:
  "\<forall>n \<in> set names. \<not> missing_var env n \<Longrightarrow>
   fold (\<lambda>n m. if missing_var env n then m else m(n \<mapsto> py_strip (getenv env n []))) names out
     = (\<lambda>k. if k \<in> set names then Some (py_strip (getenv env k [])) else out k)"
  by (induction names arbitrary: out) (auto simp: fun_eq_iff)

lemma require_env_result:
  "require_env env names =
     (if \<exists>n \<in> set names. missing_var env n
      then Inl (SystemExit 2 (missing_message (filter (missing_var env) names)))
      else Inr (\<lambda>k. if k \<in> set names then Some (py_strip (getenv env k [])) else None))"
proof (cases "\<exists>n \<in> set names. missing_var env n")
  case True
  then have "filter (missing_var env) names \<noteq> []"
    by (simp add: filter_empty_conv)
  then show ?thesis using True
    by (simp add: require_env_def require_env_loop_eq die_def)
next
  case False
  then have "filter (missing_var env) names = []"
    by (simp add: filter_empty_conv)
  then show ?thesis using False fold_present[of names env Map.empty]
    by (simp add: require_env_def require_env_loop_eq)
qed

lemma sublist_embed: "sublist n ys \<Longrightarrow> sublist n (a @ ys @ b)"
proof -
  assume "sublist n ys"
  then obtain ps ss where "ys = ps @ n @ ss" by (auto simp: sublist_def)
  then have "a @ ys @ b = (a @ ps) @ n @ (ss @ b)" by simp
  then show ?thesis unfolding sublist_def by blast
qed

lemma sublist_py_join: "n \<in> set xs \<Longrightarrow> sublist n (py_join sep xs)"
proof (induction sep xs rule: py_join.induct)
  case (3 sep x y ys)
  show ?case
  proof (cases "n = x")
    case True
    then show ?thesis by simp
  next
    case False
    then have "sublist n (py_join sep (y # ys))" using 3 by simp
    then have "sublist n ((x @ sep) @ py_join sep (y # ys) @ [])" by (rule sublist_embed)
    then show ?thesis by simp
  qed
qed simp_all

lemma sublist_missing_message: "n \<in> set xs \<Longrightarrow> sublist n (missing_message xs)"
  unfolding missing_message_def by (intro sublist_embed sublist_py_join)

text \<open>
  C9. When at least one of the seven mandatory variables is unset, empty or whitespace
  only, \<open>require_env\<close> fails with exit code 2 and one message, which lists every missing
  name, in the order of the call; each missing name stands in the message. When none is
  missing it returns a mapping whose keys are the seven names, each with the stripped,
  non-empty value of its variable.
\<close>

theorem require_env_mandatory:
  "(if \<exists>n \<in> set mandatory_names. missing_var env n
    then require_env env mandatory_names =
           Inl (SystemExit 2 (missing_message (filter (missing_var env) mandatory_names))) \<and>
         (\<forall>n \<in> set mandatory_names. missing_var env n \<longrightarrow>
            sublist n (missing_message (filter (missing_var env) mandatory_names)))
    else \<exists>m. require_env env mandatory_names = Inr m \<and> dom m = set mandatory_names \<and>
           (\<forall>n \<in> set mandatory_names.
              \<exists>v. env n = Some v \<and> m n = Some (py_strip v) \<and> py_strip v \<noteq> []))"
proof (cases "\<exists>n \<in> set mandatory_names. missing_var env n")
  case True
  have "sublist n (missing_message (filter (missing_var env) mandatory_names))"
    if "n \<in> set mandatory_names" "missing_var env n" for n
    using that by (intro sublist_missing_message) simp
  then show ?thesis
    using True by (simp add: require_env_result)
next
  case False
  let ?m = "\<lambda>k. if k \<in> set mandatory_names then Some (py_strip (getenv env k [])) else None"
  have r: "require_env env mandatory_names = Inr ?m"
    using False by (simp add: require_env_result)
  have d: "dom ?m = set mandatory_names"
    by (auto simp: dom_def)
  have v: "\<exists>v. env n = Some v \<and> ?m n = Some (py_strip v) \<and> py_strip v \<noteq> []"
    if "n \<in> set mandatory_names" for n
  proof -
    from that False have "\<not> missing_var env n" by blast
    then obtain v where "env n = Some v" "py_strip v \<noteq> []"
      by (auto simp: missing_var_def py_strip_empty_iff split: option.splits)
    then show ?thesis using that by (simp add: getenv_def)
  qed
  show ?thesis
    using False r d v by auto
qed

lemma missing_incomplete:
  "filter (missing_var env_incomplete) mandatory_names =
     [ustr ''TENANT_ID'', ustr ''CLIENT_ID'', ustr ''SP_TABLE_NAME'']"
  by (simp add: mandatory_names_def missing_var_def env_incomplete_def py_isspace_def)

lemma missing_complete: "filter (missing_var env_complete) mandatory_names = []"
  by (simp add: mandatory_names_def missing_var_def env_complete_def py_isspace_def)

theorem require_env_mandatory_witness:
  "require_env env_incomplete mandatory_names =
     Inl (SystemExit 2
       (ustr ''Missing required env vars: TENANT_ID, CLIENT_ID, SP_TABLE_NAME''
        @ [10, 10145, 65039] @ ustr '' Check GitHub Secrets / workflow env mapping.'')) \<and>
   (\<exists>m. require_env env_complete mandatory_names = Inr m \<and>
        m (ustr ''TENANT_ID'') = Some (ustr ''t1''))"
proof
  have "\<exists>n \<in> set mandatory_names. missing_var env_incomplete n"
    using missing_incomplete by (metis filter_empty_conv list.distinct(1))
  then show "require_env env_incomplete mandatory_names =
     Inl (SystemExit 2
       (ustr ''Missing required env vars: TENANT_ID, CLIENT_ID, SP_TABLE_NAME''
        @ [10, 10145, 65039] @ ustr '' Check GitHub Secrets / workflow env mapping.''))"
    using require_env_mandatory[of env_incomplete]
    by (simp add: missing_incomplete missing_message_def)
next
  have "\<not> (\<exists>n \<in> set mandatory_names. missing_var env_complete n)"
    using missing_complete by (simp add: filter_empty_conv)
  then obtain m where m: "require_env env_complete mandatory_names = Inr m"
    "\<forall>n \<in> set mandatory_names.
        \<exists>v. env_complete n = Some v \<and> m n = Some (py_strip v) \<and> py_strip v \<noteq> []"
    using require_env_mandatory[of env_complete] by auto
  have "ustr ''TENANT_ID'' \<in> set mandatory_names"
    by (simp add: mandatory_names_def)
  with m(2) obtain v where "env_complete (ustr ''TENANT_ID'') = Some v"
    "m (ustr ''TENANT_ID'') = Some (py_strip v)" by blast
  then have "m (ustr ''TENANT_ID'') = Some (ustr ''t1'')"
    by (auto simp: env_complete_def py_strip_def py_isspace_def)
  with m(1) show "\<exists>m. require_env env_complete mandatory_names = Inr m \<and>
        m (ustr ''TENANT_ID'') = Some (ustr ''t1'')" by blast
qed
section \<open>Normalising and sorting\<close>

lemma to_int_raises_iff:
  "(\<exists>e. to_int x = Inl e) \<longleftrightarrow> x = PFloat PosInf \<or> x = PFloat NegInf \<or> x = PFloat NaN"
proof (cases x)
  case (PFloat f)
  then show ?thesis by (cases f) (simp_all add: to_int_def int_of_float_def)
next
  case (PStr t)
  then show ?thesis by (simp add: to_int_text)
qed (simp_all add: to_int_def)






lemma normalize_rows_completes:
  assumes "\<And>row. row \<in> set rows \<Longrightarrow>
             pick_col B row qc \<notin> {PFloat PosInf, PFloat NegInf, PFloat NaN}"
  shows "\<exists>items. normalize_rows B sc mc qc rows acc = Inr items"
  using assms
proof (induction rows arbitrary: acc)
  case Nil
  then show ?case by simp
next
  case (Cons row rows)
  have "\<not> (\<exists>e. to_int (pick_col B row qc) = Inl e)"
    using Cons.prems[of row] by (simp add: to_int_raises_iff)
  then obtain q where "to_int (pick_col B row qc) = Inr q"
    by (cases "to_int (pick_col B row qc)") auto
  then show ?case
    using Cons.IH Cons.prems by (simp add: Let_def)
qed

lemmas pick_eval = pick_col_def norm_keys_def sku_candidates_def model_candidates_def
  qty_candidates_def ascii_builtins_def ascii_lower_def py_strip_def py_isspace_def
  safe_str_def py_str_def



text \<open>
  C2. Any list of records comes out of the sort ascending by SKU, strings compared
  lexicographically by code point, with the same records, and the records of any one SKU
  in the order they had before; the snapshot is the sorted list of the normalised records.
\<close>

theorem snapshot_sorted_stable:
  "sorted (map SKU (sort_items items)) \<and> mset (sort_items items) = mset items \<and>
   (\<forall>k. filter (\<lambda>x. SKU x = k) (sort_items items) = filter (\<lambda>x. SKU x = k) items) \<and>
   snapshot_items B so mo qo rows =
     (case normalize_rows B (sku_candidates so) (model_candidates mo) (qty_candidates qo) rows [] of
        Inl e \<Rightarrow> Inl e
      | Inr kept \<Rightarrow> Inr (sort_items kept))"
  by (simp add: snapshot_items_def sort_items_def sort_key_stable)


lemma string_order_examples:
  "ustr ''A1'' < ustr ''B2'' \<and> ustr ''a'' < ustr ''ab'' \<and> ustr ''B'' < ustr ''a'' \<and>
   ustr ''10'' < ustr ''9''"
  by simp

section \<open>The fetcher\<close>

lemma requests_get_world:
  "requests_get url token w = (r, w1) \<Longrightarrow>
     net w1 = net w \<and> gets w1 = gets w @ [(url, token)] \<and> sleeps w1 = sleeps w \<and>
     out_file w1 = out_file w \<and> r = net w (length (gets w)) url token"
  by (auto simp: requests_get_def)

lemma time_sleep_world:
  "time_sleep t w = Inr w2 \<Longrightarrow>
     net w2 = net w \<and> sleep_refused w2 = sleep_refused w \<and> gets w2 = gets w \<and>
     out_file w2 = out_file w \<and> (\<exists>s. t = Finite s \<and> sleeps w2 = sleeps w @ [s])"
  by (cases t) (auto simp: time_sleep_def split: if_splits)

lemma graph_get_loop_Inr:
  "graph_get_loop n url token b w = (Inr j, w') \<Longrightarrow>
     net w' = net w \<and> out_file w' = out_file w \<and> length (gets w) < length (gets w') \<and>
     (\<exists>r. net w (length (gets w') - 1) url token = Response r \<and> status_code r = 200 \<and>
          body_json r = Some j)"
proof (induction n arbitrary: b w)
  case 0
  then show ?case by (simp add: die_def)
next
  case (Suc n)
  obtain rp w1 where g: "requests_get url token w = (rp, w1)" by force
  note w1 = requests_get_world[OF g]
  show ?case
  proof (cases rp)
    case NoResponse
    with Suc.prems g show ?thesis by simp
  next
    case (Response r)
    show ?thesis
    proof (cases "status_code r = 200")
      case True
      with Suc.prems g Response w1 show ?thesis
        by (auto split: option.splits)
    next
      case False
      show ?thesis
      proof (cases "retriable (status_code r)")
        case True
        with Suc.prems g Response False obtain wait w2 where
          sl: "time_sleep wait w1 = Inr w2" and
          rec: "graph_get_loop n url token (min (double_mult b double_1_8) 30) w2 = (Inr j, w')"
          by (auto split: sum.splits)
        from Suc.IH[OF rec] w1 time_sleep_world[OF sl] show ?thesis
          by auto
      next
        case nr: False
        with Suc.prems g Response False show ?thesis
          by (simp add: die_def)
      qed
    qed
  qed
qed

lemma graph_get_six:
  "graph_get url token 6 w = graph_get_loop (Suc (Suc (Suc (Suc (Suc (Suc 0)))))) url token 2 w"
proof -
  have "nat 6 = Suc (Suc (Suc (Suc (Suc (Suc 0)))))" by simp
  then show ?thesis by (simp only: graph_get_def)
qed

text \<open>The doubles of the backoff, and the floats of some hints.\<close>

lemma backoff_steps:
  "min (double_mult 2 double_1_8) 30 = 8106479329266893 / 2251799813685248"
  "min (double_mult (8106479329266893 / 2251799813685248) double_1_8) 30 =
     1823957849085051 / 281474976710656"
  "min (double_mult (1823957849085051 / 281474976710656) double_1_8) 30 =
     820781032088273 / 70368744177664"
  "min (double_mult (820781032088273 / 70368744177664) double_1_8) 30 =
     2954811715517783 / 140737488355328"
  "min (double_mult (2954811715517783 / 140737488355328) double_1_8) 30 = 30"
  "min (double_mult 30 double_1_8) 30 = 30"
  by code_simp+

lemma ilog2_small:
  "ilog2 0 = 0" "ilog2 7 = 2" "ilog2 120 = 6" "ilog2 9223372036 = 33" "ilog2 10000000000 = 33"
  by (simp_all add: ilog2.simps)

lemma to_double_small:
  "to_double 0 = 0" "to_double 7 = 7" "to_double 120 = 120"
  "to_double 9223372036 = 9223372036" "to_double 10000000000 = 10000000000"
  by (simp_all add: to_double_def round_half_even_def ilog2_small Let_def)

lemma float_of_nat_small:
  "float_of_nat 0 = Finite 0" "float_of_nat 7 = Finite 7" "float_of_nat 120 = Finite 120"
  "float_of_nat 9223372036 = Finite 9223372036"
  "float_of_nat 10000000000 = Finite 10000000000"
  by (simp_all add: float_of_nat_def to_double_small)

lemmas net_eval = requests_get_def time_sleep_def start_def ok_reply_def status_reply_def
  wait_for_def retriable_def die_def str_isdigit_def py_float_digits_def py_decimal_low
  py_isdigit_low never_refused_def backoff_steps float_of_nat_small

lemma get_page_one:
  "graph_get url token 6 (start net_two_pages) =
     (Inr page_one,
      \<lparr>net = net_two_pages, sleep_refused = never_refused, gets = [(url, token), (url, token)],
       sleeps = [2], out_file = None\<rparr>)"
  by (simp add: graph_get_six net_eval net_two_pages_def)

lemma get_page_two:
  "graph_get (ustr ''https://next/2'') token 6
     \<lparr>net = net_two_pages, sleep_refused = never_refused, gets = [(url, token), (url, token)],
       sleeps = [2], out_file = None\<rparr> =
     (Inr page_two,
      \<lparr>net = net_two_pages, sleep_refused = never_refused,
       gets = [(url, token), (url, token),
               (ustr ''https://next/2'', token), (ustr ''https://next/2'', token)],
       sleeps = [2, 7], out_file = None\<rparr>)"
  by (simp add: graph_get_six net_eval net_two_pages_def)

lemma get_superscript:
  "graph_get url token 6 (start net_superscript) =
     (Inl ValueError, \<lparr>net = net_superscript, sleep_refused = never_refused, gets = [(url, token)], sleeps = [], out_file = None\<rparr>)"
  by (simp add: graph_get_six net_eval net_superscript_def py_isdigit_def in_ranges_def digit_ranges_def py_decimal_def decimal_ranges_def)


text \<open>What one attempt does, by the status of the response it receives.\<close>

lemma attempt_ok:
  "net w (length (gets w)) url token = Response r \<Longrightarrow> status_code r = 200 \<Longrightarrow>
   body_json r = Some j \<Longrightarrow>
   graph_get_loop (Suc n) url token b w = (Inr j, w\<lparr>gets := gets w @ [(url, token)]\<rparr>)"
  by (simp add: requests_get_def)

lemma attempt_fatal:
  "net w (length (gets w)) url token = Response r \<Longrightarrow> status_code r \<noteq> 200 \<Longrightarrow>
   \<not> retriable (status_code r) \<Longrightarrow>
   graph_get_loop (Suc n) url token b w =
     (Inl (SystemExit 2 (get_failed_message url r)), w\<lparr>gets := gets w @ [(url, token)]\<rparr>)"
  by (simp add: requests_get_def die_def)

lemma attempt_retry:
  "net w (length (gets w)) url token = Response r \<Longrightarrow> retriable (status_code r) \<Longrightarrow>
   wait_for (retry_after r) b = Inr (Finite t) \<Longrightarrow> 0 \<le> t \<Longrightarrow> t * 10 ^ 9 < 2 ^ 63 \<Longrightarrow>
   \<not> sleep_refused w t \<Longrightarrow>
   graph_get_loop (Suc n) url token b w =
     graph_get_loop n url token (min (double_mult b double_1_8) 30)
       (w\<lparr>gets := gets w @ [(url, token)], sleeps := sleeps w @ [t]\<rparr>)"
  by (auto simp: requests_get_def time_sleep_def retriable_def)

lemma attempt_sleep_fails:
  "net w (length (gets w)) url token = Response r \<Longrightarrow> retriable (status_code r) \<Longrightarrow>
   wait_for (retry_after r) b = Inr wait \<Longrightarrow>
   time_sleep wait (w\<lparr>gets := gets w @ [(url, token)]\<rparr>) = Inl e \<Longrightarrow>
   graph_get_loop (Suc n) url token b w = (Inl e, w\<lparr>gets := gets w @ [(url, token)]\<rparr>)"
  by (auto simp: requests_get_def retriable_def)

lemma attempts_exhausted:
  "graph_get_loop 0 url token b w =
     (Inl (SystemExit 2 (ustr ''Graph GET failed after retries: '' @ url)), w)"
  by (simp add: die_def)

text \<open>The wait of a retried attempt, for a header that is absent or of ASCII digits.\<close>

lemma wait_for_absent: "wait_for None b = Inr (Finite b)"
  by (simp add: wait_for_def)

lemma wait_for_not_digits: "\<not> str_isdigit h \<Longrightarrow> wait_for (Some h) b = Inr (Finite b)"
  by (simp add: wait_for_def)

lemma wait_for_seconds:
  "wait_for (Some (ustr ''120'')) b = Inr (Finite 120) \<and>
   wait_for (Some (ustr ''0'')) b = Inr (Finite 0) \<and>
   wait_for (Some (ustr ''Fri, 31 Dec 1999 23:59:59 GMT'')) b = Inr (Finite b) \<and>
   wait_for (Some (ustr ''1.5'')) b = Inr (Finite b) \<and> wait_for (Some []) b = Inr (Finite b)"
  by (simp add: wait_for_def str_isdigit_def py_float_digits_def py_isdigit_low py_decimal_low
      float_of_nat_small)

text \<open>
  Six transient responses without a hint: the waits are the doubles that print as 2.0,
  3.6, 6.48, 11.664000000000001 and 20.995200000000004, then 30; the sixth attempt is the
  last, and the run ends with exit code 2.
\<close>

lemma backoff_sequence:
  "graph_get url token 6 (start net_always_busy) =
     (Inl (SystemExit 2 (ustr ''Graph GET failed after retries: '' @ url)),
      \<lparr>net = net_always_busy, sleep_refused = never_refused,
       gets = [(url, token), (url, token), (url, token), (url, token), (url, token), (url, token)],
       sleeps = [2, 8106479329266893 / 2251799813685248, 1823957849085051 / 281474976710656,
                 820781032088273 / 70368744177664, 2954811715517783 / 140737488355328, 30],
       out_file = None\<rparr>)"
  by (simp add: graph_get_six net_eval net_always_busy_def)

text \<open>
  A hint of digits that is too long a sleep: \<open>time.sleep\<close> raises, after one GET and
  without a retry. Ten thousand million seconds overflow on every system; 9223372036
  seconds are refused by a system whose clock cannot hold them.
\<close>

lemma long_hint_overflows:
  "graph_get url token 6 (start net_long_hint) =
     (Inl OverflowError,
      \<lparr>net = net_long_hint, sleep_refused = never_refused, gets = [(url, token)], sleeps = [],
       out_file = None\<rparr>)"
  by (simp add: graph_get_six net_eval net_long_hint_def)

lemma big_hint_refused:
  "graph_get url token 6 ((start net_big_hint)\<lparr>sleep_refused := refused_from 9223372036\<rparr>) =
     (Inl OSError,
      \<lparr>net = net_big_hint, sleep_refused = refused_from 9223372036, gets = [(url, token)],
       sleeps = [], out_file = None\<rparr>)"
  by (simp add: graph_get_six net_eval net_big_hint_def refused_from_def)

text \<open>A 404 is fatal at once: one GET, no wait, the status and the body in the message.\<close>

lemma not_found_fatal:
  "graph_get url token 6 (start net_not_found) =
     (Inl (SystemExit 2
        (ustr ''Graph GET failed: '' @ url @ [10] @ ustr ''HTTP 404'' @ [32, 8212, 32] @ ustr ''busy'')),
      \<lparr>net = net_not_found, sleep_refused = never_refused, gets = [(url, token)], sleeps = [], out_file = None\<rparr>)"
  by (simp add: graph_get_six net_eval net_not_found_def get_failed_message_def str_int_def
      digits_of.simps)

text \<open>
  C10. When \<open>graph_get\<close> returns, at least one GET was issued and the value returned is the
  parsed body of the last response received, whose status is 200. The code after the
  loop, reached when the attempts run out, ends in \<open>die\<close> (\<open>attempts_exhausted\<close>), so the
  empty dictionary behind it is never returned.
\<close>

theorem graph_get_returns_ok_body:
  "graph_get url token max_retries w = (Inr j, w') \<Longrightarrow>
     length (gets w) < length (gets w') \<and>
     (\<exists>r. net w (length (gets w') - 1) url token = Response r \<and> status_code r = 200 \<and>
          body_json r = Some j)"
  unfolding graph_get_def by (drule graph_get_loop_Inr) blast

theorem graph_get_returns_ok_body_witness:
  "graph_get (ustr ''https://first'') (ustr ''tok'') 6 (start net_two_pages) =
     (Inr page_one,
      \<lparr>net = net_two_pages, sleep_refused = never_refused,
       gets = [(ustr ''https://first'', ustr ''tok''), (ustr ''https://first'', ustr ''tok'')],
       sleeps = [2], out_file = None\<rparr>) \<and>
   (\<exists>r. net_two_pages 1 (ustr ''https://first'') (ustr ''tok'') = Response r \<and>
        status_code r = 200 \<and> body_json r = Some page_one)"
proof -
  have e: "graph_get (ustr ''https://first'') (ustr ''tok'') 6 (start net_two_pages) =
     (Inr page_one,
      \<lparr>net = net_two_pages, sleep_refused = never_refused,
       gets = [(ustr ''https://first'', ustr ''tok''), (ustr ''https://first'', ustr ''tok'')],
       sleeps = [2], out_file = None\<rparr>)"
    by (rule get_page_one)
  from graph_get_returns_ok_body[OF e] have
    "\<exists>r. net_two_pages 1 (ustr ''https://first'') (ustr ''tok'') = Response r \<and>
        status_code r = 200 \<and> body_json r = Some page_one"
    by (simp add: start_def)
  with e show ?thesis by blast
qed

text \<open>
  C6. A 429 whose \<open>Retry-After\<close> header is the superscript two: \<open>isdigit()\<close> accepts the
  header, \<open>float\<close> raises \<open>ValueError\<close>, and \<open>graph_get\<close> ends after one GET without a wait,
  a retry or a \<open>die\<close>.
\<close>

theorem graph_get_superscript_hint:
  "graph_get url token 6 (start net_superscript) =
     (Inl ValueError,
      \<lparr>net = net_superscript, sleep_refused = never_refused, gets = [(url, token)], sleeps = [], out_file = None\<rparr>)"
  by (rule get_superscript)

text \<open>
  C7. The header \<open>\<twosuperior>\<close> consists of a digit character only, yet no wait comes of it,
  neither its value nor the backoff.
\<close>

theorem wait_for_superscript_hint:
  "str_isdigit [178] \<and> wait_for (Some [178]) 2 = Inl ValueError"
  by (simp add: wait_for_def str_isdigit_def py_float_digits_def py_isdigit_def in_ranges_def
      digit_ranges_def py_decimal_low)

section \<open>The row collector\<close>

lemma load_rows_stop: "\<not> truthy url \<Longrightarrow> load_rows cols token url acc w = Some (Inr acc, w)"
  by (subst load_rows.simps) simp

lemma load_rows_step:
  "truthy url \<Longrightarrow> graph_get (the url) token 6 w = (Inr p, w1) \<Longrightarrow>
   load_rows cols token url acc w =
     load_rows cols token (odata_nextLink p) (acc @ page_rows cols p) w1"
  by (subst load_rows.simps) simp

lemma load_rows_fail:
  "truthy url \<Longrightarrow> graph_get (the url) token 6 w = (Inl e, w1) \<Longrightarrow>
   load_rows cols token url acc w = Some (Inl e, w1)"
  by (subst load_rows.simps) simp

lemma load_rows_serves:
  "u \<noteq> [] \<Longrightarrow> serves token u w pages w' \<Longrightarrow>
   load_rows cols token (Some u) acc w =
     load_rows cols token (odata_nextLink (last pages))
       (acc @ concat (map (page_rows cols) pages)) w'"
proof (induction token u w pages w' arbitrary: acc rule: serves.induct)
  case (1 token u w w')
  then show ?case by simp
next
  case (2 token u w p w')
  then show ?case
    by (simp add: load_rows_step truthy_def)
next
  case (3 token u w p q ps w')
  from "3.prems"(2) obtain w1 where
    g: "graph_get u token 6 w = (Inr p, w1)" and t: "truthy (odata_nextLink p)"
    and s: "serves token (the (odata_nextLink p)) w1 (q # ps) w'"
    by (auto split: prod.splits sum.splits)
  from t obtain v where v: "odata_nextLink p = Some v" "v \<noteq> []"
    by (auto simp: truthy_def split: option.splits)
  have "load_rows cols token (Some u) acc w =
        load_rows cols token (Some v) (acc @ page_rows cols p) w1"
    using g "3.prems"(1) v by (simp add: load_rows_step truthy_def)
  also have "\<dots> = load_rows cols token (odata_nextLink (last (q # ps)))
       ((acc @ page_rows cols p) @ concat (map (page_rows cols) (q # ps))) w'"
    using "3.IH"[of "Inr p" w1 p, OF _ _ _ _ ] g t s v by simp
  finally show ?case by simp
qed



lemma page_two_rows: "page_rows [ustr ''SKU'', ustr ''Qty''] page_two = scenario_rows"
  by (simp add: page_rows_def page_two_def row_of_def first_values_def scenario_rows_def upt_rec)

lemma page_one_rows: "page_rows cols page_one = []"
  by (simp add: page_rows_def page_one_def)

lemma get_single_page:
  "n 0 url token = ok_reply p \<Longrightarrow>
   graph_get url token 6 (start n) =
     (Inr p, \<lparr>net = n, sleep_refused = never_refused, gets = [(url, token)], sleeps = [], out_file = None\<rparr>)"
  by (simp add: graph_get_six net_eval)

lemma rows_url_truthy: "truthy (Some (rows_url site_id item_id quoted_table))"
  by (simp add: truthy_def rows_url_def GRAPH_def)

text \<open>
  C8, as the code has it. When the fetches, started at a non-empty URL, return a sequence
  of pages, each fetched at the next link of the one before, the loop appends the rows of
  every page in turn, whatever their number; after the last of these pages it goes on to
  that page's next link when the link is a non-empty string, and ends with the rows
  collected when the page has no next link or an empty one.
\<close>

theorem load_rows_follows_links:
  "u \<noteq> [] \<Longrightarrow> serves token u w pages w' \<Longrightarrow>
   load_rows cols token (Some u) acc w =
     (if truthy (odata_nextLink (last pages))
      then load_rows cols token (odata_nextLink (last pages))
             (acc @ concat (map (page_rows cols) pages)) w'
      else Some (Inr (acc @ concat (map (page_rows cols) pages)), w'))"
  by (simp add: load_rows_serves load_rows_stop)

theorem load_rows_follows_links_witness:
  "load_rows [ustr ''SKU'', ustr ''Qty''] (ustr ''tok'') (Some (ustr ''https://first'')) []
     (start net_two_pages) =
   Some (Inr scenario_rows,
     \<lparr>net = net_two_pages, sleep_refused = never_refused,
      gets = [(ustr ''https://first'', ustr ''tok''), (ustr ''https://first'', ustr ''tok''),
              (ustr ''https://next/2'', ustr ''tok''), (ustr ''https://next/2'', ustr ''tok'')],
      sleeps = [2, 7], out_file = None\<rparr>)"
proof -
  let ?w' = "\<lparr>net = net_two_pages, sleep_refused = never_refused,
      gets = [(ustr ''https://first'', ustr ''tok''), (ustr ''https://first'', ustr ''tok''),
              (ustr ''https://next/2'', ustr ''tok''), (ustr ''https://next/2'', ustr ''tok'')],
      sleeps = [2, 7], out_file = None\<rparr>"
  have n: "ustr ''https://first'' \<noteq> []" by simp
  have l: "odata_nextLink page_one = Some (ustr ''https://next/2'')"
    "odata_nextLink page_two = None"
    by (simp_all add: page_one_def page_two_def)
  have s: "serves (ustr ''tok'') (ustr ''https://first'') (start net_two_pages)
             [page_one, page_two] ?w'"
    by (simp add: get_page_one get_page_two[simplified] l truthy_def)
  show ?thesis
    using load_rows_follows_links[OF n s, of "[ustr ''SKU'', ustr ''Qty'']" "[]"]
    by (simp add: l truthy_def page_one_rows page_two_rows[simplified])
qed

text \<open>
  C8 as stated fails on a page whose next-link field is present and empty: the loop ends
  after this page, though the response contains the field and the server has another
  page.
\<close>

theorem load_rows_empty_link_counterexample:
  "odata_nextLink page_empty_link \<noteq> None \<and>
   load_rows [ustr ''SKU'', ustr ''Qty''] (ustr ''tok'') (Some (ustr ''https://first'')) []
     (start net_empty_link) =
   Some (Inr [[(ustr ''SKU'', PStr (ustr ''A1'')), (ustr ''Qty'', PStr (ustr ''5''))]],
     \<lparr>net = net_empty_link, sleep_refused = never_refused, gets = [(ustr ''https://first'', ustr ''tok'')],
      sleeps = [], out_file = None\<rparr>)"
proof -
  let ?w1 = "\<lparr>net = net_empty_link, sleep_refused = never_refused, gets = [(ustr ''https://first'', ustr ''tok'')],
      sleeps = [], out_file = None\<rparr>"
  have g: "graph_get (the (Some (ustr ''https://first''))) (ustr ''tok'') 6 (start net_empty_link) =
             (Inr page_empty_link, ?w1)"
    by (simp add: get_single_page net_empty_link_def)
  have t: "truthy (Some (ustr ''https://first''))" by (simp add: truthy_def)
  have l: "odata_nextLink page_empty_link = Some []" by (simp add: page_empty_link_def)
  have r: "page_rows [ustr ''SKU'', ustr ''Qty''] page_empty_link =
             [[(ustr ''SKU'', PStr (ustr ''A1'')), (ustr ''Qty'', PStr (ustr ''5''))]]"
    by (simp add: page_rows_def page_empty_link_def row_of_def first_values_def upt_rec)
  have "load_rows [ustr ''SKU'', ustr ''Qty''] (ustr ''tok'') (Some (ustr ''https://first'')) []
          (start net_empty_link) =
        load_rows [ustr ''SKU'', ustr ''Qty''] (ustr ''tok'') (Some [])
          ([] @ page_rows [ustr ''SKU'', ustr ''Qty''] page_empty_link) ?w1"
    using load_rows_step[OF t g] l by simp
  also have "\<dots> = Some (Inr ([] @ page_rows [ustr ''SKU'', ustr ''Qty''] page_empty_link), ?w1)"
    by (rule load_rows_stop) (simp add: truthy_def)
  finally show ?thesis using l r by simp
qed

section \<open>Zero rows and the snapshot\<close>







section \<open>A quantity that is not finite\<close>

lemma load_inf_qty:
  "load_rows [ustr ''SKU'', ustr ''Qty''] token (Some (rows_url site_id item_id qt)) []
     (start net_inf_qty) =
     Some (Inr [[(ustr ''SKU'', PStr (ustr ''A1'')), (ustr ''Qty'', PFloat PosInf)]],
           \<lparr>net = net_inf_qty, sleep_refused = never_refused,
            gets = [(rows_url site_id item_id qt, token)], sleeps = [], out_file = None\<rparr>)"
proof -
  let ?w1 = "\<lparr>net = net_inf_qty, sleep_refused = never_refused,
                gets = [(rows_url site_id item_id qt, token)], sleeps = [], out_file = None\<rparr>"
  let ?c = "[ustr ''SKU'', ustr ''Qty'']"
  have g: "graph_get (the (Some (rows_url site_id item_id qt))) token 6 (start net_inf_qty) =
             (Inr page_inf_qty, ?w1)"
    by (simp add: get_single_page net_inf_qty_def)
  have "load_rows ?c token (Some (rows_url site_id item_id qt)) [] (start net_inf_qty) =
        load_rows ?c token (odata_nextLink page_inf_qty) ([] @ page_rows ?c page_inf_qty) ?w1"
    by (rule load_rows_step[OF rows_url_truthy g])
  also have "\<dots> = Some (Inr ([] @ page_rows ?c page_inf_qty), ?w1)"
    by (rule load_rows_stop) (simp add: truthy_def page_inf_qty_def)
  finally show ?thesis
    by (simp add: page_rows_def page_inf_qty_def row_of_def first_values_def upt_rec)
qed

text \<open>
  C1. A table whose only row has the SKU \<open>A1\<close> and a quantity that is the float infinity:
  the resolved SKU is not empty, yet the row yields no record. \<open>int(x)\<close> in \<open>to_int\<close>
  raises \<open>OverflowError\<close>, the normalising loop ends with it, and the run ends without
  writing the snapshot.
\<close>

theorem infinite_quantity_aborts:
  "safe_str ascii_builtins
     (pick_col ascii_builtins [(ustr ''SKU'', PStr (ustr ''A1'')), (ustr ''Qty'', PFloat PosInf)]
        (sku_candidates [])) = ustr ''A1'' \<and>
   normalize_rows ascii_builtins (sku_candidates []) (model_candidates []) (qty_candidates [])
     [[(ustr ''SKU'', PStr (ustr ''A1'')), (ustr ''Qty'', PFloat PosInf)]] [] = Inl OverflowError \<and>
   main_rows ascii_builtins (ustr ''tok'') (ustr ''s'') (ustr ''i'') (ustr ''Stock'')
     [ustr ''SKU'', ustr ''Qty''] [] [] [] (start net_inf_qty) =
   Some (Inl OverflowError,
     \<lparr>net = net_inf_qty, sleep_refused = never_refused,
      gets = [(rows_url (ustr ''s'') (ustr ''i'') (ustr ''Stock''), ustr ''tok'')],
      sleeps = [], out_file = None\<rparr>)"
proof -
  have a: "safe_str ascii_builtins
     (pick_col ascii_builtins [(ustr ''SKU'', PStr (ustr ''A1'')), (ustr ''Qty'', PFloat PosInf)]
        (sku_candidates [])) = ustr ''A1''"
    by (simp add: pick_eval)
  have b: "normalize_rows ascii_builtins (sku_candidates []) (model_candidates [])
     (qty_candidates [])
     [[(ustr ''SKU'', PStr (ustr ''A1'')), (ustr ''Qty'', PFloat PosInf)]] [] = Inl OverflowError"
    by (simp add: pick_eval to_int_def int_of_float_def)
  have c: "main_rows ascii_builtins (ustr ''tok'') (ustr ''s'') (ustr ''i'') (ustr ''Stock'')
     [ustr ''SKU'', ustr ''Qty''] [] [] [] (start net_inf_qty) =
   Some (Inl OverflowError,
     \<lparr>net = net_inf_qty, sleep_refused = never_refused,
      gets = [(rows_url (ustr ''s'') (ustr ''i'') (ustr ''Stock''), ustr ''tok'')],
      sleeps = [], out_file = None\<rparr>)"
    using b by (simp add: main_rows_def snapshot_items_def load_inf_qty[simplified])
  from a b c show ?thesis by blast
qed

end
